theory Spec2Isabelle
  imports Main "HOL-Library.Sublist"
begin

section \<open>JavaScript strings and values\<close>

text \<open>
  The detector of \<^verbatim>\<open>src/main.js\<close> works on JavaScript strings. A JavaScript string is a
  sequence of UTF-16 code units; a code unit is a number (below 65536, a bound nothing
  here depends on). \<open>js\<close> turns the text of a literal of the source into its code units.
\<close>

type_synonym code_unit = int

type_synonym jsstring = "code_unit list"

abbreviation js :: "string \<Rightarrow> jsstring" where
  "js \<equiv> map of_char"

text \<open>
  A field of an object that the code reads may be missing (\<^verbatim>\<open>undefined\<close>), \<^verbatim>\<open>null\<close> or a
  string.
\<close>

datatype jsval = Undefined | Null | Str jsstring

text \<open>\<^verbatim>\<open>v || ''\<close>: the string itself, the empty string for a missing field.\<close>

fun or_empty :: "jsval \<Rightarrow> jsstring" where
  "or_empty (Str s) = s"
| "or_empty Undefined = []"
| "or_empty Null = []"

text \<open>Truthiness of a field: only a non-empty string is truthy.\<close>

fun truthy :: "jsval \<Rightarrow> bool" where
  "truthy (Str s) = (s \<noteq> [])"
| "truthy Undefined = False"
| "truthy Null = False"

text \<open>\<^verbatim>\<open>${v}\<close> inside a template literal.\<close>

fun template :: "jsval \<Rightarrow> jsstring" where
  "template (Str s) = s"
| "template Undefined = js ''undefined''"
| "template Null = js ''null''"

subsection \<open>Case conversion\<close>

text \<open>
  \<^verbatim>\<open>toLowerCase\<close> and \<^verbatim>\<open>toUpperCase\<close> follow the case tables of Unicode, which belong to the
  JavaScript engine and not to the program. On a string of ASCII characters they exchange
  the letters A-Z and a-z and leave every other character alone. What they return on any
  other string is a parameter of the model: the theorems below hold whatever the engine
  does there. (It may change the length: the engine turns the one code unit U+FB00 into
  the two letters FF.)
\<close>

record Runtime =
  lower_beyond_ascii :: "jsstring \<Rightarrow> jsstring"
  upper_beyond_ascii :: "jsstring \<Rightarrow> jsstring"

definition is_ascii :: "code_unit \<Rightarrow> bool" where
  "is_ascii u = (u < 128)"

definition lower_ascii :: "code_unit \<Rightarrow> code_unit" where
  "lower_ascii u = (if 65 \<le> u \<and> u \<le> 90 then u + 32 else u)"

definition upper_ascii :: "code_unit \<Rightarrow> code_unit" where
  "upper_ascii u = (if 97 \<le> u \<and> u \<le> 122 then u - 32 else u)"

definition toLowerCase :: "Runtime \<Rightarrow> jsstring \<Rightarrow> jsstring" where
  "toLowerCase rt s =
     (if list_all is_ascii s then map lower_ascii s else lower_beyond_ascii rt s)"

definition toUpperCase :: "Runtime \<Rightarrow> jsstring \<Rightarrow> jsstring" where
  "toUpperCase rt s =
     (if list_all is_ascii s then map upper_ascii s else upper_beyond_ascii rt s)"

text \<open>\<^verbatim>\<open>hay.includes(needle)\<close>: the needle occurs as a contiguous piece of the hay.\<close>

fun includes_str :: "jsstring \<Rightarrow> jsstring \<Rightarrow> bool" where
  "includes_str [] needle = (needle = [])"
| "includes_str (c # hay) needle = (prefix needle (c # hay) \<or> includes_str hay needle)"

text \<open>\<^verbatim>\<open>s.substring(0, n)\<close>.\<close>

definition substring0 :: "nat \<Rightarrow> jsstring \<Rightarrow> jsstring" where
  "substring0 n s = take n s"

text \<open>\<^verbatim>\<open>xs.forEach(f)\<close> where the callback updates the local variables.\<close>

fun forEach :: "('a \<Rightarrow> 's \<Rightarrow> 's) \<Rightarrow> 'a list \<Rightarrow> 's \<Rightarrow> 's" where
  "forEach f [] s = s"
| "forEach f (x # xs) s = forEach f xs (f x s)"

section \<open>The inputs of a detection run\<close>

text \<open>
  An awaited call either throws (the promise rejects) or resolves to a value. What is
  thrown is either \<^verbatim>\<open>null\<close> or \<^verbatim>\<open>undefined\<close>, or a value on which \<^verbatim>\<open>.message\<close> can be read: an
  \<^verbatim>\<open>Error\<close> with its message, or something without one, where the read gives
  \<^verbatim>\<open>undefined\<close>. In \<^verbatim>\<open>checkEmulator\<close> every \<^verbatim>\<open>await\<close> is the first statement of its \<^verbatim>\<open>try\<close>
  block, so a rejection happens before the block has pushed anything.
\<close>

datatype thrown = Nullish | HasMessage jsval

datatype 'a awaited = Rejected thrown | Resolved 'a

text \<open>
  Reading \<^verbatim>\<open>error.message\<close> in a \<^verbatim>\<open>catch\<close> clause throws a \<^verbatim>\<open>TypeError\<close> when \<^verbatim>\<open>error\<close> is
  \<^verbatim>\<open>null\<close> or \<^verbatim>\<open>undefined\<close>. Nothing catches it: the call of \<^verbatim>\<open>checkEmulator\<close> rejects.
\<close>

datatype exn = TypeError

fun error_message :: "thrown \<Rightarrow> exn + jsval" where
  "error_message Nullish = Inl TypeError"
| "error_message (HasMessage message) = Inr message"

record system_data =
  manufacturer :: jsval
  model :: jsval

record chassis_data =
  chassis_type :: jsval

record cpu_data =
  brand :: jsval

record iface_data =
  iface :: jsval
  mac :: jsval

record bios_data =
  vendor :: jsval

record uuid_data =
  uuid_os :: jsval

text \<open>
  The answers of the outside world during one run: the six queries of the
  system-information library and the read of \<^verbatim>\<open>/proc/1/cgroup\<close>. The chassis and the UUID
  answers are tested for truthiness by the code before a field is read, so they may be
  absent (\<open>None\<close>). The other answers are objects with the fields the code reads; a field
  is a string when it is present.
\<close>

record SystemInfoProvider =
  si_system :: "system_data awaited"
  si_chassis :: "chassis_data option awaited"
  si_cpu :: "cpu_data awaited"
  si_networkInterfaces :: "iface_data list awaited"
  si_bios :: "bios_data awaited"
  si_uuid :: "uuid_data option awaited"
  readFile_cgroup :: "jsstring awaited"

text \<open>\<^verbatim>\<open>app.isPackaged\<close>, \<^verbatim>\<open>process.env\<close> and \<^verbatim>\<open>process.platform\<close>.\<close>

record RuntimeContext =
  isPackaged :: bool
  env :: "jsstring \<Rightarrow> jsstring option"
  platform :: jsstring

text \<open>Truthiness of \<^verbatim>\<open>process.env.X\<close>: set, and not the empty string.\<close>

fun env_truthy :: "jsstring option \<Rightarrow> bool" where
  "env_truthy None = False"
| "env_truthy (Some v) = (v \<noteq> [])"

section \<open>The local variables and the report\<close>

record locals =
  isEmulator :: bool
  l_evidences :: "jsstring list"

record report =
  is_emulator :: bool
  evidences :: "jsstring list"
  os :: jsstring

definition push :: "jsstring \<Rightarrow> locals \<Rightarrow> locals" where
  "push e s = s\<lparr>l_evidences := l_evidences s @ [e]\<rparr>"

text \<open>The pair of statements \<^verbatim>\<open>isEmulator = true; evidences.push(e)\<close>.\<close>

definition detect :: "jsstring \<Rightarrow> locals \<Rightarrow> locals" where
  "detect e s = push e (s\<lparr>isEmulator := True\<rparr>)"

text \<open>
  A \<^verbatim>\<open>catch\<close> clause that pushes a text built from \<^verbatim>\<open>error.message\<close>: the read of the
  message comes first, and when it throws nothing is pushed.
\<close>

definition catch_push :: "(jsval \<Rightarrow> jsstring) \<Rightarrow> thrown \<Rightarrow> locals \<Rightarrow> exn + locals" where
  "catch_push text error s =
     (case error_message error of
        Inl e \<Rightarrow> Inl e
      | Inr message \<Rightarrow> Inr (push (text message) s))"

text \<open>Statements in sequence: the next one runs when nothing was thrown.\<close>

definition seq :: "exn + locals \<Rightarrow> (locals \<Rightarrow> exn + locals) \<Rightarrow> exn + locals" where
  "seq r f = (case r of Inl e \<Rightarrow> Inl e | Inr s \<Rightarrow> f s)"

section \<open>The nine checks of \<^verbatim>\<open>checkEmulator\<close>\<close>

subsection \<open>1. Development mode\<close>

definition check_development :: "RuntimeContext \<Rightarrow> locals \<Rightarrow> locals" where
  "check_development ctx s =
     (let s1 = (if \<not> isPackaged ctx
                then detect (js ''app.isPackaged=false (development mode)'') s else s)
      in if env ctx (js ''NODE_ENV'') = Some (js ''development'')
         then detect (js ''NODE_ENV=development'') s1 else s1)"

subsection \<open>2. System manufacturer and model\<close>

definition virtualizationIndicators :: "jsstring list" where
  "virtualizationIndicators =
     map js [''vmware'', ''virtualbox'', ''qemu'', ''kvm'', ''hyper-v'', ''parallels'',
             ''xen'', ''bhyve'', ''bochs'', ''acrn'', ''oracle'', ''azure'']"

definition system_evidence :: "system_data \<Rightarrow> jsstring \<Rightarrow> jsstring" where
  \<open>system_evidence system indicator =
     js ''Detected virtualization indicator: "'' @ indicator @
     js ''" in manufacturer/model (manufacturer: "'' @ template (manufacturer system) @
     js ''", model: "'' @ template (model system) @ js ''")''\<close>

definition system_indicator ::
    "Runtime \<Rightarrow> system_data \<Rightarrow> jsstring \<Rightarrow> locals \<Rightarrow> locals" where
  "system_indicator rt system indicator s =
     (let manufacturer_l = toLowerCase rt (or_empty (manufacturer system));
          model_l = toLowerCase rt (or_empty (model system))
      in if includes_str manufacturer_l indicator \<or> includes_str model_l indicator
         then detect (system_evidence system indicator) s else s)"

definition system_error :: "jsval \<Rightarrow> jsstring" where
  "system_error message = js ''Error detecting system virtualization: '' @ template message"

definition check_system :: "Runtime \<Rightarrow> SystemInfoProvider \<Rightarrow> locals \<Rightarrow> exn + locals" where
  "check_system rt p s =
     (case si_system p of
        Rejected error \<Rightarrow> catch_push system_error error s
      | Resolved system \<Rightarrow>
          Inr (forEach (system_indicator rt system) virtualizationIndicators s))"

subsection \<open>3. Chassis\<close>

definition chassis_evidence :: "chassis_data \<Rightarrow> jsstring" where
  \<open>chassis_evidence chassis =
     js ''Chassis type indicates virtualization: "'' @ template (chassis_type chassis) @
     js ''"''\<close>

definition chassis_error :: "jsval \<Rightarrow> jsstring" where
  "chassis_error message = js ''Error retrieving chassis information: '' @ template message"

definition check_chassis :: "Runtime \<Rightarrow> SystemInfoProvider \<Rightarrow> locals \<Rightarrow> exn + locals" where
  "check_chassis rt p s =
     (case si_chassis p of
        Rejected error \<Rightarrow> catch_push chassis_error error s
      | Resolved None \<Rightarrow> Inr s
      | Resolved (Some chassis) \<Rightarrow>
          Inr (if truthy (chassis_type chassis)
                  \<and> includes_str (toLowerCase rt (or_empty (chassis_type chassis)))
                       (js ''virtual'')
               then detect (chassis_evidence chassis) s else s))"

subsection \<open>4. CPU\<close>

definition cpu_evidence :: "cpu_data \<Rightarrow> jsstring" where
  \<open>cpu_evidence cpu =
     js ''CPU brand indicates virtualization: "'' @ template (brand cpu) @ js ''"''\<close>

definition cpu_error :: "jsval \<Rightarrow> jsstring" where
  "cpu_error message = js ''Error retrieving CPU information: '' @ template message"

definition check_cpu :: "Runtime \<Rightarrow> SystemInfoProvider \<Rightarrow> locals \<Rightarrow> exn + locals" where
  "check_cpu rt p s =
     (case si_cpu p of
        Rejected error \<Rightarrow> catch_push cpu_error error s
      | Resolved cpu \<Rightarrow>
          Inr (let cpuBrand = toLowerCase rt (or_empty (brand cpu))
               in if includes_str cpuBrand (js ''virtual'')
                     \<or> includes_str cpuBrand (js ''vmware'')
                     \<or> includes_str cpuBrand (js ''qemu'')
                  then detect (cpu_evidence cpu) s else s))"

subsection \<open>5. Network interfaces\<close>

definition virtualMacPrefixes :: "jsstring list" where
  "virtualMacPrefixes =
     map js [''00:05:69'', ''00:0C:29'', ''00:1C:14'', ''00:50:56'', ''00:1C:42'',
             ''00:03:FF'']"

definition network_evidence :: "iface_data \<Rightarrow> jsstring \<Rightarrow> jsstring" where
  "network_evidence i vprefix =
     js ''Network interface '' @ template (iface i) @ js '' has MAC address '' @
     template (mac i) @ js '' with virtualization prefix ('' @ vprefix @ js '')''"

definition network_prefix :: "iface_data \<Rightarrow> jsstring \<Rightarrow> jsstring \<Rightarrow> locals \<Rightarrow> locals" where
  "network_prefix i macPrefix vprefix s =
     (if macPrefix = vprefix then detect (network_evidence i vprefix) s else s)"

definition network_iface :: "Runtime \<Rightarrow> iface_data \<Rightarrow> locals \<Rightarrow> locals" where
  "network_iface rt i s =
     (if truthy (mac i)
      then (let macPrefix = toUpperCase rt (substring0 8 (or_empty (mac i)))
            in forEach (network_prefix i macPrefix) virtualMacPrefixes s)
      else s)"

definition network_error :: "jsval \<Rightarrow> jsstring" where
  "network_error message =
     js ''Error retrieving network interface information: '' @ template message"

definition check_network :: "Runtime \<Rightarrow> SystemInfoProvider \<Rightarrow> locals \<Rightarrow> exn + locals" where
  "check_network rt p s =
     (case si_networkInterfaces p of
        Rejected error \<Rightarrow> catch_push network_error error s
      | Resolved netInterfaces \<Rightarrow> Inr (forEach (network_iface rt) netInterfaces s))"

subsection \<open>6. BIOS\<close>

definition biosIndicators :: "jsstring list" where
  "biosIndicators =
     map js [''virtual'', ''vmware'', ''qemu'', ''virtualbox'', ''xen'', ''parallels'']"

definition bios_evidence :: "bios_data \<Rightarrow> jsstring \<Rightarrow> jsstring" where
  \<open>bios_evidence bios indicator =
     js ''BIOS vendor indicates virtualization: "'' @ template (vendor bios) @
     js ''" contains "'' @ indicator @ js ''"''\<close>

definition bios_indicator :: "Runtime \<Rightarrow> bios_data \<Rightarrow> jsstring \<Rightarrow> locals \<Rightarrow> locals" where
  "bios_indicator rt bios indicator s =
     (let biosVendor = toLowerCase rt (or_empty (vendor bios))
      in if includes_str biosVendor indicator
         then detect (bios_evidence bios indicator) s else s)"

definition bios_error :: "jsval \<Rightarrow> jsstring" where
  "bios_error message = js ''Error retrieving BIOS information: '' @ template message"

definition check_bios :: "Runtime \<Rightarrow> SystemInfoProvider \<Rightarrow> locals \<Rightarrow> exn + locals" where
  "check_bios rt p s =
     (case si_bios p of
        Rejected error \<Rightarrow> catch_push bios_error error s
      | Resolved bios \<Rightarrow> Inr (forEach (bios_indicator rt bios) biosIndicators s))"

subsection \<open>7. UUID\<close>

definition uuid_evidence :: "uuid_data \<Rightarrow> jsstring" where
  \<open>uuid_evidence uuidData =
     js ''UUID indicates virtualization: "'' @ template (uuid_os uuidData) @ js ''"''\<close>

definition uuid_error :: "jsval \<Rightarrow> jsstring" where
  "uuid_error message = js ''Error retrieving UUID information: '' @ template message"

definition check_uuid :: "Runtime \<Rightarrow> SystemInfoProvider \<Rightarrow> locals \<Rightarrow> exn + locals" where
  "check_uuid rt p s =
     (case si_uuid p of
        Rejected error \<Rightarrow> catch_push uuid_error error s
      | Resolved None \<Rightarrow> Inr s
      | Resolved (Some uuidData) \<Rightarrow>
          Inr (if truthy (uuid_os uuidData)
               then (let uuidOs = toLowerCase rt (or_empty (uuid_os uuidData))
                     in if includes_str uuidOs (js ''vmware'')
                           \<or> includes_str uuidOs (js ''virtual'')
                           \<or> includes_str uuidOs (js ''vbox'')
                        then detect (uuid_evidence uuidData) s else s)
               else s))"

subsection \<open>8. Container control group (Linux)\<close>

text \<open>The \<^verbatim>\<open>catch\<close> clause of this check is empty: it does not read the error.\<close>

definition check_cgroup :: "RuntimeContext \<Rightarrow> SystemInfoProvider \<Rightarrow> locals \<Rightarrow> locals" where
  "check_cgroup ctx p s =
     (if platform ctx = js ''linux''
      then (case readFile_cgroup p of
              Rejected error \<Rightarrow> s
            | Resolved cgroup \<Rightarrow>
                if includes_str cgroup (js ''docker'') \<or> includes_str cgroup (js ''lxc'')
                then detect (js ''Detected container environment via /proc/1/cgroup'') s
                else s)
      else s)"

subsection \<open>9. Container environment variables\<close>

definition check_env :: "RuntimeContext \<Rightarrow> locals \<Rightarrow> locals" where
  "check_env ctx s =
     (if env_truthy (env ctx (js ''DOCKER_CONTAINER''))
         \<or> env_truthy (env ctx (js ''CONTAINER''))
      then detect (js ''Environment variable indicates container/emulator environment'') s
      else s)"

subsection \<open>The operating system name and the whole function\<close>

definition osName :: "jsstring \<Rightarrow> jsstring" where
  "osName pf = (if pf = js ''win32'' then js ''Windows''
                else if pf = js ''darwin'' then js ''macOS''
                else pf)"

definition initial :: locals where
  "initial = \<lparr>isEmulator = False, l_evidences = []\<rparr>"

definition run_checks :: "Runtime \<Rightarrow> RuntimeContext \<Rightarrow> SystemInfoProvider \<Rightarrow> exn + locals" where
  "run_checks rt ctx p =
     seq (seq (seq (seq (seq (seq
       (check_system rt p (check_development ctx initial))
       (check_chassis rt p))
       (check_cpu rt p))
       (check_network rt p))
       (check_bios rt p))
       (check_uuid rt p))
       (\<lambda>s. Inr (check_env ctx (check_cgroup ctx p s)))"

definition checkEmulator :: "Runtime \<Rightarrow> RuntimeContext \<Rightarrow> SystemInfoProvider \<Rightarrow> exn + report" where
  "checkEmulator rt ctx p =
     (case run_checks rt ctx p of
        Inl e \<Rightarrow> Inl e
      | Inr s \<Rightarrow>
          Inr \<lparr>is_emulator = isEmulator s, evidences = l_evidences s,
               os = osName (platform ctx)\<rparr>)"

section \<open>The checks as lists of entries\<close>

text \<open>
  The specification describes each check by what it contributes to the report: a list of
  entries, in the order in which its indicators are tried. The definitions of this section
  follow that description; the theorems below relate them to the code.
\<close>

text \<open>
  An error entry is one built by a \<^verbatim>\<open>catch\<close> clause: it starts with the fixed text of one
  of the six clauses. Every other entry is a positive one.
\<close>

definition error_heads :: "jsstring list" where
  "error_heads =
     map js [''Error detecting system virtualization: '',
             ''Error retrieving chassis information: '',
             ''Error retrieving CPU information: '',
             ''Error retrieving network interface information: '',
             ''Error retrieving BIOS information: '',
             ''Error retrieving UUID information: '']"

definition is_error_evidence :: "jsstring \<Rightarrow> bool" where
  "is_error_evidence e = list_ex (\<lambda>h. prefix h e) error_heads"

text \<open>
  The key of a MAC address, as the code computes it: the first eight code units (three
  octets and two separators), upper-cased.
\<close>

definition mac_key :: "Runtime \<Rightarrow> jsstring \<Rightarrow> jsstring" where
  "mac_key rt m = toUpperCase rt (take 8 m)"


definition mac_matches :: "Runtime \<Rightarrow> iface_data \<Rightarrow> bool" where
  "mac_matches rt i = (mac_key rt (or_empty (mac i)) \<in> set virtualMacPrefixes)"

definition system_matches :: "Runtime \<Rightarrow> system_data \<Rightarrow> jsstring \<Rightarrow> bool" where
  "system_matches rt system token =
     (includes_str (toLowerCase rt (or_empty (manufacturer system))) token
      \<or> includes_str (toLowerCase rt (or_empty (model system))) token)"

definition bios_matches :: "Runtime \<Rightarrow> bios_data \<Rightarrow> jsstring \<Rightarrow> bool" where
  "bios_matches rt bios token =
     includes_str (toLowerCase rt (or_empty (vendor bios))) token"

definition chassis_matches :: "Runtime \<Rightarrow> chassis_data \<Rightarrow> bool" where
  "chassis_matches rt chassis =
     (truthy (chassis_type chassis) \<and>
      includes_str (toLowerCase rt (or_empty (chassis_type chassis))) (js ''virtual''))"

definition cpu_matches :: "Runtime \<Rightarrow> cpu_data \<Rightarrow> bool" where
  "cpu_matches rt cpu =
     list_ex (includes_str (toLowerCase rt (or_empty (brand cpu))))
       (map js [''virtual'', ''vmware'', ''qemu''])"

definition uuid_matches :: "Runtime \<Rightarrow> uuid_data \<Rightarrow> bool" where
  "uuid_matches rt uuidData =
     (truthy (uuid_os uuidData) \<and>
      list_ex (includes_str (toLowerCase rt (or_empty (uuid_os uuidData))))
        (map js [''vmware'', ''virtual'', ''vbox'']))"

definition cgroup_matches :: "RuntimeContext \<Rightarrow> SystemInfoProvider \<Rightarrow> bool" where
  "cgroup_matches ctx p =
     (platform ctx = js ''linux'' \<and>
      (case readFile_cgroup p of
         Rejected error \<Rightarrow> False
       | Resolved cgroup \<Rightarrow>
           includes_str cgroup (js ''docker'') \<or> includes_str cgroup (js ''lxc'')))"

text \<open>The entry of a failed query; none when reading the message throws.\<close>

fun error_entry :: "(jsval \<Rightarrow> jsstring) \<Rightarrow> thrown \<Rightarrow> jsstring list" where
  "error_entry text Nullish = []"
| "error_entry text (HasMessage message) = [text message]"

definition development_entries :: "RuntimeContext \<Rightarrow> jsstring list" where
  "development_entries ctx =
     (if isPackaged ctx then [] else [js ''app.isPackaged=false (development mode)'']) @
     (if env ctx (js ''NODE_ENV'') = Some (js ''development'')
      then [js ''NODE_ENV=development''] else [])"

definition system_entries :: "Runtime \<Rightarrow> SystemInfoProvider \<Rightarrow> jsstring list" where
  "system_entries rt p =
     (case si_system p of
        Rejected error \<Rightarrow> error_entry system_error error
      | Resolved system \<Rightarrow>
          map (system_evidence system)
            (filter (system_matches rt system) virtualizationIndicators))"

definition chassis_entries :: "Runtime \<Rightarrow> SystemInfoProvider \<Rightarrow> jsstring list" where
  "chassis_entries rt p =
     (case si_chassis p of
        Rejected error \<Rightarrow> error_entry chassis_error error
      | Resolved None \<Rightarrow> []
      | Resolved (Some chassis) \<Rightarrow>
          if chassis_matches rt chassis then [chassis_evidence chassis] else [])"

definition cpu_entries :: "Runtime \<Rightarrow> SystemInfoProvider \<Rightarrow> jsstring list" where
  "cpu_entries rt p =
     (case si_cpu p of
        Rejected error \<Rightarrow> error_entry cpu_error error
      | Resolved cpu \<Rightarrow> if cpu_matches rt cpu then [cpu_evidence cpu] else [])"

definition network_entries :: "Runtime \<Rightarrow> SystemInfoProvider \<Rightarrow> jsstring list" where
  "network_entries rt p =
     (case si_networkInterfaces p of
        Rejected error \<Rightarrow> error_entry network_error error
      | Resolved netInterfaces \<Rightarrow>
          map (\<lambda>i. network_evidence i (mac_key rt (or_empty (mac i))))
            (filter (mac_matches rt) netInterfaces))"

definition bios_entries :: "Runtime \<Rightarrow> SystemInfoProvider \<Rightarrow> jsstring list" where
  "bios_entries rt p =
     (case si_bios p of
        Rejected error \<Rightarrow> error_entry bios_error error
      | Resolved bios \<Rightarrow>
          map (bios_evidence bios) (filter (bios_matches rt bios) biosIndicators))"

definition uuid_entries :: "Runtime \<Rightarrow> SystemInfoProvider \<Rightarrow> jsstring list" where
  "uuid_entries rt p =
     (case si_uuid p of
        Rejected error \<Rightarrow> error_entry uuid_error error
      | Resolved None \<Rightarrow> []
      | Resolved (Some uuidData) \<Rightarrow>
          if uuid_matches rt uuidData then [uuid_evidence uuidData] else [])"

definition cgroup_entries :: "RuntimeContext \<Rightarrow> SystemInfoProvider \<Rightarrow> jsstring list" where
  "cgroup_entries ctx p =
     (if cgroup_matches ctx p
      then [js ''Detected container environment via /proc/1/cgroup''] else [])"

definition env_entries :: "RuntimeContext \<Rightarrow> jsstring list" where
  "env_entries ctx =
     (if env_truthy (env ctx (js ''DOCKER_CONTAINER''))
         \<or> env_truthy (env ctx (js ''CONTAINER''))
      then [js ''Environment variable indicates container/emulator environment'']
      else [])"

text \<open>The verdict flag agrees with the entries pushed so far.\<close>

definition consistent :: "locals \<Rightarrow> bool" where
  "consistent s = (isEmulator s = (\<exists>e\<in>set (l_evidences s). \<not> is_error_evidence e))"

text \<open>One of the six queries rejects with \<^verbatim>\<open>null\<close> or \<^verbatim>\<open>undefined\<close>.\<close>

definition nullish_rejection :: "SystemInfoProvider \<Rightarrow> bool" where
  "nullish_rejection p =
     (si_system p = Rejected Nullish \<or> si_chassis p = Rejected Nullish
      \<or> si_cpu p = Rejected Nullish \<or> si_networkInterfaces p = Rejected Nullish
      \<or> si_bios p = Rejected Nullish \<or> si_uuid p = Rejected Nullish)"

section \<open>Example inputs\<close>

text \<open>
  An engine for the examples. Beyond ASCII it knows two entries of the Unicode case
  tables: KELVIN SIGN (U+212A) has the lower case k, and LATIN SMALL LIGATURE FF (U+FB00)
  has the upper case FF. On a string built from ASCII characters and these two it returns
  what \<^verbatim>\<open>toLowerCase\<close> and \<^verbatim>\<open>toUpperCase\<close> return.
\<close>

definition engine :: Runtime where
  "engine =
     \<lparr>lower_beyond_ascii =
        (\<lambda>s. concat (map (\<lambda>u. if u = 0x212A then js ''k'' else [lower_ascii u]) s)),
      upper_beyond_ascii =
        (\<lambda>s. concat (map (\<lambda>u. if u = 0xFB00 then js ''FF'' else [upper_ascii u]) s))\<rparr>"

text \<open>\<^verbatim>\<open>new Error(m)\<close>, thrown.\<close>

definition new_Error :: "string \<Rightarrow> thrown" where
  "new_Error m = HasMessage (Str (js m))"

text \<open>A provider whose six queries all fail; the read of the control-group file is given.\<close>

definition failing :: "jsstring awaited \<Rightarrow> SystemInfoProvider" where
  "failing cg =
     \<lparr>si_system = Rejected (new_Error ''no system''),
      si_chassis = Rejected (new_Error ''no chassis''),
      si_cpu = Rejected (new_Error ''no cpu''),
      si_networkInterfaces = Rejected (new_Error ''no net''),
      si_bios = Rejected (new_Error ''no bios''),
      si_uuid = Rejected (new_Error ''no uuid''),
      readFile_cgroup = cg\<rparr>"

definition unreadable :: "jsstring awaited" where
  "unreadable = Rejected (new_Error ''ENOENT'')"

text \<open>The same provider, but the BIOS query rejects with \<^verbatim>\<open>null\<close>.\<close>

definition failing_with_null :: SystemInfoProvider where
  "failing_with_null = (failing unreadable)\<lparr>si_bios := Rejected Nullish\<rparr>"

text \<open>A packaged application with an empty environment, and one with an unrelated variable.\<close>

definition packaged :: "string \<Rightarrow> RuntimeContext" where
  "packaged pf = \<lparr>isPackaged = True, env = Map.empty, platform = js pf\<rparr>"

definition with_path :: "string \<Rightarrow> RuntimeContext" where
  "with_path pf =
     \<lparr>isPackaged = True, env = [js ''PATH'' \<mapsto> js ''/usr/bin''], platform = js pf\<rparr>"

text \<open>A packaged application on Linux with the two container variables as given.\<close>

definition container_env :: "string option \<Rightarrow> string option \<Rightarrow> RuntimeContext" where
  "container_env d c =
     \<lparr>isPackaged = True,
      env = (\<lambda>k. if k = js ''DOCKER_CONTAINER'' then map_option js d
                  else if k = js ''CONTAINER'' then map_option js c else None),
      platform = js ''linux''\<rparr>"

text \<open>Hosts that answer the system query only.\<close>

definition vmware_host :: SystemInfoProvider where
  "vmware_host =
     (failing unreadable)
       \<lparr>si_system := Resolved \<lparr>manufacturer = Str (js ''VMware, Inc.''),
                                 model = Str (js ''VMware Virtual Platform'')\<rparr>\<rparr>"

definition oracle_system :: system_data where
  "oracle_system =
     \<lparr>manufacturer = Str (js ''Oracle Corporation''), model = Str (js ''VirtualBox'')\<rparr>"

text \<open>A manufacturer spelled with the KELVIN SIGN: its lower case is kvm.\<close>

definition kelvin_system :: system_data where
  "kelvin_system = \<lparr>manufacturer = Str (0x212A # js ''VM''), model = Undefined\<rparr>"

definition system_host :: "system_data \<Rightarrow> SystemInfoProvider" where
  "system_host system = (failing unreadable)\<lparr>si_system := Resolved system\<rparr>"

text \<open>
  Five interfaces: a VMware prefix, a MAC without separators, an empty MAC, a lower-case
  VMware prefix, and a MAC of seven code units that ends in the ligature U+FB00.
\<close>

definition five_interfaces :: "iface_data list" where
  "five_interfaces =
     [\<lparr>iface = Str (js ''eth0''), mac = Str (js ''00:1C:14:AA:BB:CC'')\<rparr>,
      \<lparr>iface = Str (js ''eth1''), mac = Str (js ''001C:1400:00:00'')\<rparr>,
      \<lparr>iface = Str (js ''lo''), mac = Str []\<rparr>,
      \<lparr>iface = Str (js ''ens3''), mac = Str (js ''00:0c:29:01:02:03'')\<rparr>,
      \<lparr>iface = Str (js ''tap0''), mac = Str (js ''00:03:'' @ [0xFB00])\<rparr>]"



text \<open>A physical laptop.\<close>

definition dell_host :: SystemInfoProvider where
  "dell_host =
     \<lparr>si_system = Resolved \<lparr>manufacturer = Str (js ''Dell Inc.''),
                               model = Str (js ''XPS 13'')\<rparr>,
      si_chassis = Resolved (Some \<lparr>chassis_type = Str (js ''Notebook'')\<rparr>),
      si_cpu = Resolved \<lparr>brand = Str (js ''Intel(R) Core(TM) i7'')\<rparr>,
      si_networkInterfaces =
        Resolved [\<lparr>iface = Str (js ''Wi-Fi''), mac = Str (js ''a4:83:e7:12:34:56'')\<rparr>,
                  \<lparr>iface = Str (js ''Loopback''), mac = Undefined\<rparr>],
      si_bios = Resolved \<lparr>vendor = Str (js ''Dell Inc.'')\<rparr>,
      si_uuid =
        Resolved (Some \<lparr>uuid_os = Str (js ''4C4C4544-0042-3510-8054-B7C04F4D4E32'')\<rparr>),
      readFile_cgroup = unreadable\<rparr>"

text \<open>A development run inside a virtual machine inside a container.\<close>

definition busy_ctx :: RuntimeContext where
  "busy_ctx =
     \<lparr>isPackaged = False,
      env = [js ''NODE_ENV'' \<mapsto> js ''development'', js ''DOCKER_CONTAINER'' \<mapsto> js ''true''],
      platform = js ''linux''\<rparr>"

definition busy_host :: SystemInfoProvider where
  "busy_host =
     \<lparr>si_system = Resolved \<lparr>manufacturer = Str (js ''VMware, Inc.''),
                               model = Str (js ''VMware Virtual Platform'')\<rparr>,
      si_chassis = Rejected (new_Error ''EACCES''),
      si_cpu = Resolved \<lparr>brand = Str (js ''QEMU Virtual CPU'')\<rparr>,
      si_networkInterfaces = Resolved five_interfaces,
      si_bios = Resolved \<lparr>vendor = Str (js ''VMware Virtual BIOS'')\<rparr>,
      si_uuid = Resolved None,
      readFile_cgroup = Resolved (js ''12:pids:/docker/3f4a'')\<rparr>"

section \<open>Basic facts\<close>

lemmas error_defs =
  system_error_def chassis_error_def cpu_error_def network_error_def bios_error_def
  uuid_error_def

lemma includes_str_sublist: "includes_str hay needle = sublist needle hay"
  by (induction hay) (simp_all add: sublist_Cons_right)

lemma push_fields [simp]:
  "isEmulator (push e s) = isEmulator s"
  "l_evidences (push e s) = l_evidences s @ [e]"
  by (simp_all add: push_def)

lemma detect_fields [simp]:
  "isEmulator (detect e s) = True"
  "l_evidences (detect e s) = l_evidences s @ [e]"
  by (simp_all add: detect_def)

lemma locals_eqI:
  "isEmulator (a::locals) = isEmulator b \<Longrightarrow> l_evidences a = l_evidences b \<Longrightarrow> a = b"
  by simp

lemma forEach_evidences:
  assumes "\<And>x s. l_evidences (f x s) = l_evidences s @ h x"
  shows "l_evidences (forEach f xs s) = l_evidences s @ concat (map h xs)"
  using assms by (induction xs arbitrary: s) simp_all

lemma forEach_flag:
  assumes "\<And>x s. isEmulator (f x s) = (isEmulator s \<or> b x)"
  shows "isEmulator (forEach f xs s) = (isEmulator s \<or> (\<exists>x\<in>set xs. b x))"
  using assms by (induction xs arbitrary: s) auto

lemma concat_map_if:
  "concat (map (\<lambda>x. if P x then [g x] else []) xs) = map g (filter P xs)"
  by (induction xs) simp_all

lemma filter_eq_distinct:
  "distinct xs \<Longrightarrow> filter (\<lambda>y. x = y) xs = (if x \<in> set xs then [x] else [])"
  by (induction xs) auto

lemma forEach_detect_evidences:
  assumes "\<And>x s. f x s = (if P x then detect (g x) s else s)"
  shows "l_evidences (forEach f xs s) = l_evidences s @ map g (filter P xs)"
proof -
  have "\<And>x s. l_evidences (f x s) = l_evidences s @ (if P x then [g x] else [])"
    by (simp add: assms)
  from forEach_evidences [of f "\<lambda>x. if P x then [g x] else []", OF this]
  show ?thesis by (simp add: concat_map_if)
qed

lemma forEach_detect_flag:
  assumes "\<And>x s. f x s = (if P x then detect (g x) s else s)"
  shows "isEmulator (forEach f xs s) = (isEmulator s \<or> filter P xs \<noteq> [])"
proof -
  have "\<And>x s. isEmulator (f x s) = (isEmulator s \<or> P x)"
    by (simp add: assms)
  from forEach_flag [of f P, OF this] show ?thesis
    by (simp add: filter_empty_conv)
qed

lemma forEach_detect_result:
  assumes "\<And>x s. f x s = (if P x then detect (g x) s else s)"
  shows "forEach f xs s =
           s\<lparr>isEmulator := isEmulator s \<or> filter P xs \<noteq> [],
             l_evidences := l_evidences s @ map g (filter P xs)\<rparr>"
  by (rule locals_eqI)
     (simp_all add: forEach_detect_evidences [of f P g, OF assms]
        forEach_detect_flag [of f P g, OF assms])

subsection \<open>The catch clauses and sequencing\<close>

lemma catch_push_Inr:
  "catch_push text error s = Inr s' \<longleftrightarrow>
     (\<exists>message. error = HasMessage message \<and> s' = push (text message) s)"
  by (cases error) (auto simp: catch_push_def)

lemma catch_push_Inl:
  "catch_push text error s = Inl e \<longleftrightarrow> error = Nullish"
  by (cases error; cases e) (auto simp: catch_push_def)

lemma catch_push_entry:
  "catch_push text error s = Inr s' \<Longrightarrow>
     l_evidences s' = l_evidences s @ error_entry text error
     \<and> isEmulator s' = isEmulator s"
  by (auto simp: catch_push_Inr)

lemma seq_Inr: "seq r f = Inr s' \<longleftrightarrow> (\<exists>s. r = Inr s \<and> f s = Inr s')"
  by (cases r) (simp_all add: seq_def)

lemma seq_Inl: "seq r f = Inl e \<longleftrightarrow> r = Inl e \<or> (\<exists>s. r = Inr s \<and> f s = Inl e)"
  by (cases r) (simp_all add: seq_def)

subsection \<open>What each check appends\<close>

lemma check_development_evidences:
  "l_evidences (check_development ctx s) = l_evidences s @ development_entries ctx"
  by (simp add: check_development_def development_entries_def Let_def)

lemma system_indicator_step:
  "system_indicator rt system t s =
     (if system_matches rt system t then detect (system_evidence system t) s else s)"
  by (simp add: system_indicator_def system_matches_def Let_def)

lemma check_system_evidences:
  assumes "check_system rt p s = Inr s'"
  shows "l_evidences s' = l_evidences s @ system_entries rt p"
proof (cases "si_system p")
  case (Rejected error)
  then show ?thesis
    using assms catch_push_entry [of system_error error s s']
    by (simp add: check_system_def system_entries_def)
next
  case (Resolved system)
  from forEach_detect_evidences [of "system_indicator rt system" "system_matches rt system",
      OF system_indicator_step]
  show ?thesis using Resolved assms
    by (auto simp: check_system_def system_entries_def)
qed

lemma check_chassis_evidences:
  assumes "check_chassis rt p s = Inr s'"
  shows "l_evidences s' = l_evidences s @ chassis_entries rt p"
proof (cases "si_chassis p")
  case (Rejected error)
  then show ?thesis
    using assms catch_push_entry [of chassis_error error s s']
    by (simp add: check_chassis_def chassis_entries_def)
next
  case (Resolved c)
  then show ?thesis using assms
    by (auto simp: check_chassis_def chassis_entries_def chassis_matches_def
          split: option.splits)
qed

lemma check_cpu_evidences:
  assumes "check_cpu rt p s = Inr s'"
  shows "l_evidences s' = l_evidences s @ cpu_entries rt p"
proof (cases "si_cpu p")
  case (Rejected error)
  then show ?thesis
    using assms catch_push_entry [of cpu_error error s s']
    by (simp add: check_cpu_def cpu_entries_def)
next
  case (Resolved cpu)
  then show ?thesis using assms
    by (auto simp: check_cpu_def cpu_entries_def cpu_matches_def Let_def)
qed

lemma toUpperCase_Nil: "toUpperCase rt [] = []"
  by (simp add: toUpperCase_def)

lemma distinct_virtualMacPrefixes: "distinct virtualMacPrefixes"
  by (simp add: virtualMacPrefixes_def)

lemma Nil_not_prefix: "[] \<notin> set virtualMacPrefixes"
  by (simp add: virtualMacPrefixes_def)

lemma mac_matches_truthy: "mac_matches rt i \<Longrightarrow> truthy (mac i)"
  using Nil_not_prefix
  by (cases "mac i") (auto simp: mac_matches_def mac_key_def toUpperCase_Nil)

lemma network_iface_step:
  "network_iface rt i s =
     (if mac_matches rt i
      then detect (network_evidence i (mac_key rt (or_empty (mac i)))) s else s)"
proof (cases "truthy (mac i)")
  case False
  then show ?thesis using mac_matches_truthy [of rt i] by (auto simp: network_iface_def)
next
  case True
  let ?k = "mac_key rt (or_empty (mac i))"
  let ?t = "forEach (network_prefix i ?k) virtualMacPrefixes s"
  have step: "\<And>v s. network_prefix i ?k v s =
          (if ?k = v then detect (network_evidence i v) s else s)"
    by (simp add: network_prefix_def)
  have ev: "l_evidences ?t =
      l_evidences s @ (if mac_matches rt i then [network_evidence i ?k] else [])"
    using forEach_detect_evidences [of "network_prefix i ?k" "\<lambda>v. ?k = v", OF step]
    by (simp add: filter_eq_distinct [OF distinct_virtualMacPrefixes] mac_matches_def)
  have fl: "isEmulator ?t = (isEmulator s \<or> mac_matches rt i)"
    using forEach_detect_flag [of "network_prefix i ?k" "\<lambda>v. ?k = v", OF step]
    by (simp add: filter_eq_distinct [OF distinct_virtualMacPrefixes] mac_matches_def)
  have "?t = (if mac_matches rt i then detect (network_evidence i ?k) s else s)"
    by (rule locals_eqI) (simp_all add: ev fl)
  then show ?thesis using True
    by (simp add: network_iface_def Let_def substring0_def mac_key_def)
qed

lemma check_network_evidences:
  assumes "check_network rt p s = Inr s'"
  shows "l_evidences s' = l_evidences s @ network_entries rt p"
proof (cases "si_networkInterfaces p")
  case (Rejected error)
  then show ?thesis
    using assms catch_push_entry [of network_error error s s']
    by (simp add: check_network_def network_entries_def)
next
  case (Resolved ifs)
  from forEach_detect_evidences [of "network_iface rt" "mac_matches rt", OF network_iface_step]
  show ?thesis using Resolved assms
    by (auto simp: check_network_def network_entries_def)
qed

lemma bios_indicator_step:
  "bios_indicator rt bios t s =
     (if bios_matches rt bios t then detect (bios_evidence bios t) s else s)"
  by (simp add: bios_indicator_def bios_matches_def Let_def)

lemma check_bios_evidences:
  assumes "check_bios rt p s = Inr s'"
  shows "l_evidences s' = l_evidences s @ bios_entries rt p"
proof (cases "si_bios p")
  case (Rejected error)
  then show ?thesis
    using assms catch_push_entry [of bios_error error s s']
    by (simp add: check_bios_def bios_entries_def)
next
  case (Resolved bios)
  from forEach_detect_evidences [of "bios_indicator rt bios" "bios_matches rt bios",
      OF bios_indicator_step]
  show ?thesis using Resolved assms
    by (auto simp: check_bios_def bios_entries_def)
qed

lemma check_uuid_evidences:
  assumes "check_uuid rt p s = Inr s'"
  shows "l_evidences s' = l_evidences s @ uuid_entries rt p"
proof (cases "si_uuid p")
  case (Rejected error)
  then show ?thesis
    using assms catch_push_entry [of uuid_error error s s']
    by (simp add: check_uuid_def uuid_entries_def)
next
  case (Resolved u)
  then show ?thesis using assms
    by (auto simp: check_uuid_def uuid_entries_def uuid_matches_def Let_def
          split: option.splits)
qed

lemma check_cgroup_evidences:
  "l_evidences (check_cgroup ctx p s) = l_evidences s @ cgroup_entries ctx p"
  by (auto simp: check_cgroup_def cgroup_entries_def cgroup_matches_def split: awaited.splits)

lemma check_env_evidences:
  "l_evidences (check_env ctx s) = l_evidences s @ env_entries ctx"
  by (simp add: check_env_def env_entries_def)

lemma run_checks_evidences:
  assumes "run_checks rt ctx p = Inr s"
  shows "l_evidences s =
     development_entries ctx @ system_entries rt p @ chassis_entries rt p @
     cpu_entries rt p @ network_entries rt p @ bios_entries rt p @ uuid_entries rt p @
     cgroup_entries ctx p @ env_entries ctx"
proof -
  from assms obtain s1 s2 s3 s4 s5 s6 where
    "check_system rt p (check_development ctx initial) = Inr s1"
    "check_chassis rt p s1 = Inr s2" "check_cpu rt p s2 = Inr s3"
    "check_network rt p s3 = Inr s4" "check_bios rt p s4 = Inr s5"
    "check_uuid rt p s5 = Inr s6" "s = check_env ctx (check_cgroup ctx p s6)"
    by (auto simp: run_checks_def seq_Inr)
  then show ?thesis
    by (simp add: check_development_evidences check_system_evidences
          check_chassis_evidences check_cpu_evidences check_network_evidences
          check_bios_evidences check_uuid_evidences check_cgroup_evidences
          check_env_evidences initial_def)
qed

subsection \<open>When the call returns\<close>

lemma check_system_Inl: "check_system rt p s = Inl e \<longleftrightarrow> si_system p = Rejected Nullish"
  by (auto simp: check_system_def catch_push_Inl split: awaited.splits)

lemma check_chassis_Inl: "check_chassis rt p s = Inl e \<longleftrightarrow> si_chassis p = Rejected Nullish"
  by (auto simp: check_chassis_def catch_push_Inl split: awaited.splits option.splits)

lemma check_cpu_Inl: "check_cpu rt p s = Inl e \<longleftrightarrow> si_cpu p = Rejected Nullish"
  by (auto simp: check_cpu_def catch_push_Inl split: awaited.splits)

lemma check_network_Inl:
  "check_network rt p s = Inl e \<longleftrightarrow> si_networkInterfaces p = Rejected Nullish"
  by (auto simp: check_network_def catch_push_Inl split: awaited.splits)

lemma check_bios_Inl: "check_bios rt p s = Inl e \<longleftrightarrow> si_bios p = Rejected Nullish"
  by (auto simp: check_bios_def catch_push_Inl split: awaited.splits)

lemma check_uuid_Inl: "check_uuid rt p s = Inl e \<longleftrightarrow> si_uuid p = Rejected Nullish"
  by (auto simp: check_uuid_def catch_push_Inl split: awaited.splits option.splits)

lemmas check_Inl = check_system_Inl check_chassis_Inl check_cpu_Inl check_network_Inl
  check_bios_Inl check_uuid_Inl

lemma run_checks_Inl: "run_checks rt ctx p = Inl e \<longleftrightarrow> nullish_rejection p"
proof
  assume "run_checks rt ctx p = Inl e"
  then show "nullish_rejection p"
    by (auto simp: run_checks_def seq_Inl check_Inl nullish_rejection_def)
next
  assume n: "nullish_rejection p"
  show "run_checks rt ctx p = Inl e"
  proof (cases "run_checks rt ctx p")
    case (Inl e')
    then show ?thesis by (cases e; cases e') simp
  next
    case (Inr s)
    then obtain s1 s2 s3 s4 s5 s6 where
      "check_system rt p (check_development ctx initial) = Inr s1"
      "check_chassis rt p s1 = Inr s2" "check_cpu rt p s2 = Inr s3"
      "check_network rt p s3 = Inr s4" "check_bios rt p s4 = Inr s5"
      "check_uuid rt p s5 = Inr s6"
      by (auto simp: run_checks_def seq_Inr)
    moreover have "\<And>x y. x = Inr y \<Longrightarrow> x \<noteq> Inl TypeError" by simp
    ultimately have "\<not> nullish_rejection p"
      unfolding nullish_rejection_def
      by (metis check_system_Inl check_chassis_Inl check_cpu_Inl check_network_Inl
            check_bios_Inl check_uuid_Inl sum.distinct(1))
    with n show ?thesis by simp
  qed
qed

text \<open>
  The call throws exactly when one of the six queries rejects with \<^verbatim>\<open>null\<close> or
  \<^verbatim>\<open>undefined\<close>; in every other run it returns a report.
\<close>

lemma checkEmulator_Inl: "checkEmulator rt ctx p = Inl e \<longleftrightarrow> nullish_rejection p"
  using run_checks_Inl [of rt ctx p e]
  by (auto simp: checkEmulator_def split: sum.splits)

lemma checkEmulator_returns:
  "\<not> nullish_rejection p \<Longrightarrow> \<exists>r. checkEmulator rt ctx p = Inr r"
  using checkEmulator_Inl [of rt ctx p] by (cases "checkEmulator rt ctx p") auto

subsection \<open>The verdict and the entries\<close>

lemma is_error_heads:
  "is_error_evidence (system_error m)"
  "is_error_evidence (chassis_error m)"
  "is_error_evidence (cpu_error m)"
  "is_error_evidence (network_error m)"
  "is_error_evidence (bios_error m)"
  "is_error_evidence (uuid_error m)"
  by (simp_all add: is_error_evidence_def error_heads_def system_error_def chassis_error_def
        cpu_error_def network_error_def bios_error_def uuid_error_def)

lemma not_error_positive:
  "\<not> is_error_evidence (system_evidence sys t)"
  "\<not> is_error_evidence (chassis_evidence c)"
  "\<not> is_error_evidence (cpu_evidence cpu)"
  "\<not> is_error_evidence (network_evidence i v)"
  "\<not> is_error_evidence (bios_evidence b t)"
  "\<not> is_error_evidence (uuid_evidence u)"
  by (simp_all add: is_error_evidence_def error_heads_def system_evidence_def
        chassis_evidence_def cpu_evidence_def network_evidence_def bios_evidence_def
        uuid_evidence_def)

lemma consistent_initial: "consistent initial"
  by (simp add: consistent_def initial_def)

lemma consistent_push: "is_error_evidence e \<Longrightarrow> consistent s \<Longrightarrow> consistent (push e s)"
  by (auto simp: consistent_def)

lemma consistent_detect: "\<not> is_error_evidence e \<Longrightarrow> consistent (detect e s)"
  by (auto simp: consistent_def)

lemma consistent_forEach:
  assumes "\<And>x s. consistent s \<Longrightarrow> consistent (f x s)"
  shows "consistent s \<Longrightarrow> consistent (forEach f xs s)"
  using assms by (induction xs arbitrary: s) simp_all

lemma consistent_development:
  "consistent s \<Longrightarrow> consistent (check_development ctx s)"
  by (simp add: check_development_def Let_def consistent_detect is_error_evidence_def
        error_heads_def)

lemma consistent_system:
  "consistent s \<Longrightarrow> check_system rt p s = Inr s' \<Longrightarrow> consistent s'"
  by (auto simp: check_system_def system_indicator_step consistent_detect
        consistent_push not_error_positive is_error_heads catch_push_Inr
        intro!: consistent_forEach split: awaited.splits)

lemma consistent_chassis:
  "consistent s \<Longrightarrow> check_chassis rt p s = Inr s' \<Longrightarrow> consistent s'"
  by (auto simp: check_chassis_def consistent_detect consistent_push not_error_positive
        is_error_heads catch_push_Inr split: awaited.splits option.splits if_splits)

lemma consistent_cpu:
  "consistent s \<Longrightarrow> check_cpu rt p s = Inr s' \<Longrightarrow> consistent s'"
  by (auto simp: check_cpu_def Let_def consistent_detect consistent_push
        not_error_positive is_error_heads catch_push_Inr
        split: awaited.splits if_splits)

lemma consistent_network:
  "consistent s \<Longrightarrow> check_network rt p s = Inr s' \<Longrightarrow> consistent s'"
  by (auto simp: check_network_def network_iface_step consistent_detect consistent_push
        not_error_positive is_error_heads catch_push_Inr
        intro!: consistent_forEach split: awaited.splits)

lemma consistent_bios:
  "consistent s \<Longrightarrow> check_bios rt p s = Inr s' \<Longrightarrow> consistent s'"
  by (auto simp: check_bios_def bios_indicator_step consistent_detect
        consistent_push not_error_positive is_error_heads catch_push_Inr
        intro!: consistent_forEach split: awaited.splits)

lemma consistent_uuid:
  "consistent s \<Longrightarrow> check_uuid rt p s = Inr s' \<Longrightarrow> consistent s'"
  by (auto simp: check_uuid_def Let_def consistent_detect consistent_push
        not_error_positive is_error_heads catch_push_Inr
        split: awaited.splits option.splits if_splits)

lemma consistent_cgroup: "consistent s \<Longrightarrow> consistent (check_cgroup ctx p s)"
  by (auto simp: check_cgroup_def is_error_evidence_def error_heads_def
        intro!: consistent_detect split: awaited.splits)

lemma consistent_env: "consistent s \<Longrightarrow> consistent (check_env ctx s)"
  by (simp add: check_env_def consistent_detect is_error_evidence_def error_heads_def)

lemma consistent_run_checks:
  assumes "run_checks rt ctx p = Inr s"
  shows "consistent s"
proof -
  from assms obtain s1 s2 s3 s4 s5 s6 where
    c: "check_system rt p (check_development ctx initial) = Inr s1"
    "check_chassis rt p s1 = Inr s2" "check_cpu rt p s2 = Inr s3"
    "check_network rt p s3 = Inr s4" "check_bios rt p s4 = Inr s5"
    "check_uuid rt p s5 = Inr s6" and s: "s = check_env ctx (check_cgroup ctx p s6)"
    by (auto simp: run_checks_def seq_Inr)
  have "consistent (check_development ctx initial)"
    by (rule consistent_development [OF consistent_initial])
  then have "consistent s1" using c(1) by (rule consistent_system)
  then have "consistent s2" using c(2) by (rule consistent_chassis)
  then have "consistent s3" using c(3) by (rule consistent_cpu)
  then have "consistent s4" using c(4) by (rule consistent_network)
  then have "consistent s5" using c(5) by (rule consistent_bios)
  then have "consistent s6" using c(6) by (rule consistent_uuid)
  then show ?thesis unfolding s by (intro consistent_env consistent_cgroup)
qed

lemma report_consistent:
  assumes "checkEmulator rt ctx p = Inr r"
  shows "is_emulator r = (\<exists>e\<in>set (evidences r). \<not> is_error_evidence e)"
proof -
  from assms obtain s where s: "run_checks rt ctx p = Inr s"
    and r: "r = \<lparr>is_emulator = isEmulator s, evidences = l_evidences s,
                  os = osName (platform ctx)\<rparr>"
    by (auto simp: checkEmulator_def split: sum.splits)
  from consistent_run_checks [OF s] show ?thesis
    by (simp add: r consistent_def)
qed

lemma report_evidences:
  assumes "checkEmulator rt ctx p = Inr r"
  shows "evidences r =
     development_entries ctx @ system_entries rt p @ chassis_entries rt p @
     cpu_entries rt p @ network_entries rt p @ bios_entries rt p @ uuid_entries rt p @
     cgroup_entries ctx p @ env_entries ctx"
proof -
  from assms obtain s where s: "run_checks rt ctx p = Inr s"
    and r: "evidences r = l_evidences s"
    by (auto simp: checkEmulator_def split: sum.splits)
  from run_checks_evidences [OF s] r show ?thesis by simp
qed

section \<open>The claims\<close>

text \<open>
  C1: the call returns a report unless a query rejects with \<^verbatim>\<open>null\<close> or \<^verbatim>\<open>undefined\<close>, and
  the verdict of the report is true exactly when the report lists at least one positive
  entry, that is, one that is not an error entry; a report whose entries are all error
  entries has a false verdict.
\<close>

theorem verdict_iff_positive_evidence:
  "(nullish_rejection p \<longrightarrow> checkEmulator rt ctx p = Inl TypeError)
   \<and> (\<not> nullish_rejection p \<longrightarrow>
        (\<exists>r. checkEmulator rt ctx p = Inr r
             \<and> is_emulator r = (\<exists>e\<in>set (evidences r). \<not> is_error_evidence e)))"
proof (intro conjI impI)
  assume "nullish_rejection p"
  then show "checkEmulator rt ctx p = Inl TypeError"
    by (simp add: checkEmulator_Inl)
next
  assume "\<not> nullish_rejection p"
  then obtain r where r: "checkEmulator rt ctx p = Inr r"
    using checkEmulator_returns by blast
  with report_consistent [OF r]
  show "\<exists>r. checkEmulator rt ctx p = Inr r
          \<and> is_emulator r = (\<exists>e\<in>set (evidences r). \<not> is_error_evidence e)"
    by blast
qed

text \<open>
  On the development run in a virtual machine the verdict is true; where every query
  fails with a message and nothing else fires it is false.
\<close>

theorem verdict_iff_positive_evidence_witness:
  "(\<exists>r. checkEmulator engine busy_ctx busy_host = Inr r \<and> is_emulator r)
   \<and> (\<exists>r. checkEmulator engine (packaged ''linux'') (failing unreadable) = Inr r
            \<and> \<not> is_emulator r)
   \<and> checkEmulator engine (packaged ''linux'') failing_with_null = Inl TypeError"
proof -
  have n: "\<not> nullish_rejection busy_host" "\<not> nullish_rejection (failing unreadable)"
    "nullish_rejection failing_with_null"
    by (simp_all add: nullish_rejection_def busy_host_def failing_def failing_with_null_def
          new_Error_def)
  from n(1) verdict_iff_positive_evidence [of busy_host engine busy_ctx]
  obtain r1 where r1: "checkEmulator engine busy_ctx busy_host = Inr r1"
    "is_emulator r1 = (\<exists>e\<in>set (evidences r1). \<not> is_error_evidence e)"
    by blast
  from n(2) verdict_iff_positive_evidence [of "failing unreadable" engine "packaged ''linux''"]
  obtain r2 where
    r2: "checkEmulator engine (packaged ''linux'') (failing unreadable) = Inr r2"
    "is_emulator r2 = (\<exists>e\<in>set (evidences r2). \<not> is_error_evidence e)"
    by blast
  have a: "\<not> is_error_evidence (js ''app.isPackaged=false (development mode)'')"
    by code_simp
  have "evidences (projr (checkEmulator engine busy_ctx busy_host)) \<noteq> []"
    "hd (evidences (projr (checkEmulator engine busy_ctx busy_host))) =
       js ''app.isPackaged=false (development mode)''"
    by code_simp+
  with r1(1) have "js ''app.isPackaged=false (development mode)'' \<in> set (evidences r1)"
    by (cases "evidences r1") auto
  with a r1(2) have "is_emulator r1" by blast
  moreover
  have "list_all is_error_evidence
          (evidences (projr (checkEmulator engine (packaged ''linux'') (failing unreadable))))"
    by code_simp
  with r2 have "\<not> is_emulator r2"
    by (auto simp: list_all_iff)
  moreover have "checkEmulator engine (packaged ''linux'') failing_with_null = Inl TypeError"
    using n(3) verdict_iff_positive_evidence [of failing_with_null engine "packaged ''linux''"]
    by blast
  ultimately show ?thesis using r1(1) r2(1) by blast
qed

text \<open>
  As the specification words it, the next claim fails twice. The six queries fail, the
  application is packaged and the environment is empty, but the host is a Linux container:
  the control-group check fires and the verdict is true. And when one of the queries
  rejects with \<^verbatim>\<open>null\<close>, reading the message in the \<^verbatim>\<open>catch\<close> clause throws and the call
  returns no report.
\<close>

theorem all_queries_fail_in_container:
  "checkEmulator engine (packaged ''linux'')
       (failing (Resolved (js ''12:pids:/docker/3f4a''))) =
     Inr \<lparr>is_emulator = True,
          evidences = [js ''Error detecting system virtualization: no system'',
                       js ''Error retrieving chassis information: no chassis'',
                       js ''Error retrieving CPU information: no cpu'',
                       js ''Error retrieving network interface information: no net'',
                       js ''Error retrieving BIOS information: no bios'',
                       js ''Error retrieving UUID information: no uuid'',
                       js ''Detected container environment via /proc/1/cgroup''],
          os = js ''linux''\<rparr>
   \<and> checkEmulator engine (packaged ''win32'') failing_with_null = Inl TypeError"
  by code_simp

text \<open>
  C2, amended: when each of the six queries fails with an error that carries a message
  (\<open>m1\<close>, ..., \<open>m6\<close>), the application is packaged, none of \<^verbatim>\<open>NODE_ENV\<close>,
  \<^verbatim>\<open>DOCKER_CONTAINER\<close>, \<^verbatim>\<open>CONTAINER\<close> is set, and the control-group check does not fire (the
  platform is not linux, or the file is unreadable, or it mentions neither docker nor
  lxc), the call returns a report; the report has a false verdict and exactly six
  entries, the error entry of each query in the order of the checks.
\<close>

theorem all_queries_fail:
  assumes "si_system p = Rejected (HasMessage (Str m1))"
    and "si_chassis p = Rejected (HasMessage (Str m2))"
    and "si_cpu p = Rejected (HasMessage (Str m3))"
    and "si_networkInterfaces p = Rejected (HasMessage (Str m4))"
    and "si_bios p = Rejected (HasMessage (Str m5))"
    and "si_uuid p = Rejected (HasMessage (Str m6))"
    and "isPackaged ctx" and "env ctx (js ''NODE_ENV'') = None"
    and "env ctx (js ''DOCKER_CONTAINER'') = None" and "env ctx (js ''CONTAINER'') = None"
    and "\<not> cgroup_matches ctx p"
  shows "checkEmulator rt ctx p =
     Inr \<lparr>is_emulator = False,
          evidences = [js ''Error detecting system virtualization: '' @ m1,
                       js ''Error retrieving chassis information: '' @ m2,
                       js ''Error retrieving CPU information: '' @ m3,
                       js ''Error retrieving network interface information: '' @ m4,
                       js ''Error retrieving BIOS information: '' @ m5,
                       js ''Error retrieving UUID information: '' @ m6],
          os = osName (platform ctx)\<rparr>"
proof -
  have cg: "check_cgroup ctx p s = s" for s
    using assms(11) by (auto simp: check_cgroup_def cgroup_matches_def split: awaited.splits)
  show ?thesis
    using assms(1-10)
    by (simp add: checkEmulator_def run_checks_def seq_def cg check_development_def
          check_system_def check_chassis_def check_cpu_def check_network_def check_bios_def
          check_uuid_def check_env_def catch_push_def error_defs initial_def push_def)
qed

text \<open>
  The amended statement on a Linux host outside a container.
\<close>

theorem all_queries_fail_witness:
  "checkEmulator engine (packaged ''linux'') (failing (Resolved (js ''0::/init.scope''))) =
     Inr \<lparr>is_emulator = False,
          evidences = [js ''Error detecting system virtualization: no system'',
                       js ''Error retrieving chassis information: no chassis'',
                       js ''Error retrieving CPU information: no cpu'',
                       js ''Error retrieving network interface information: no net'',
                       js ''Error retrieving BIOS information: no bios'',
                       js ''Error retrieving UUID information: no uuid''],
          os = js ''linux''\<rparr>"
proof -
  have cg: "\<not> cgroup_matches (packaged ''linux'') (failing (Resolved (js ''0::/init.scope'')))"
    by code_simp
  from all_queries_fail [where rt = engine and ctx = "packaged ''linux''"
      and p = "failing (Resolved (js ''0::/init.scope''))"
      and ?m1.0 = "js ''no system''" and ?m2.0 = "js ''no chassis''"
      and ?m3.0 = "js ''no cpu''" and ?m4.0 = "js ''no net''"
      and ?m5.0 = "js ''no bios''" and ?m6.0 = "js ''no uuid''", OF _ _ _ _ _ _ _ _ _ _ cg]
  show ?thesis
    by (simp add: failing_def packaged_def new_Error_def osName_def)
qed

text \<open>
  As the specification words it, the next claim fails: with the token vmware in both the
  manufacturer and the model the system check pushes one entry, which names both fields,
  not two.
\<close>

theorem vmware_in_both_fields_one_entry:
  \<open>check_system engine vmware_host initial =
     Inr \<lparr>isEmulator = True,
          l_evidences =
            [js ''Detected virtualization indicator: "vmware" in manufacturer/model (manufacturer: "VMware, Inc.", model: "VMware Virtual Platform")'']\<rparr>\<close>
  by code_simp

text \<open>
  C3, amended: when the system query answers, the system check pushes one entry per
  indicator token that occurs in the lower-cased manufacturer or in the lower-cased model
  (or in both), in the order of the indicator list, and sets the verdict when there is
  such a token. Lower-casing is that of the engine, whatever it does beyond ASCII.
\<close>

theorem system_probe_one_entry_per_token:
  assumes "si_system p = Resolved system"
  shows "check_system rt p s =
     Inr (s\<lparr>isEmulator :=
              isEmulator s \<or> filter (system_matches rt system) virtualizationIndicators \<noteq> [],
            l_evidences :=
              l_evidences s @
              map (system_evidence system)
                (filter (system_matches rt system) virtualizationIndicators)\<rparr>)"
  using assms
  by (simp add: check_system_def
        forEach_detect_result [of "system_indicator rt system" "system_matches rt system",
          OF system_indicator_step])

text \<open>
  Two tokens match on a VirtualBox host: one entry each, virtualbox before oracle. A
  manufacturer spelled with the KELVIN SIGN matches the token kvm.
\<close>

theorem system_probe_one_entry_per_token_witness:
  \<open>check_system engine (system_host oracle_system) initial =
     Inr \<lparr>isEmulator = True,
          l_evidences =
            [js ''Detected virtualization indicator: "virtualbox" in manufacturer/model (manufacturer: "Oracle Corporation", model: "VirtualBox")'',
             js ''Detected virtualization indicator: "oracle" in manufacturer/model (manufacturer: "Oracle Corporation", model: "VirtualBox")'']\<rparr>
   \<and> check_system engine (system_host kelvin_system) initial =
     Inr \<lparr>isEmulator = True,
          l_evidences =
            [js ''Detected virtualization indicator: "kvm" in manufacturer/model (manufacturer: "'' @
             [0x212A] @ js ''VM", model: "undefined")'']\<rparr>\<close>
proof -
  have pre: "si_system (system_host sys) = Resolved sys" for sys
    by (simp add: system_host_def failing_def)
  have hits:
    "filter (system_matches engine oracle_system) virtualizationIndicators =
       [js ''virtualbox'', js ''oracle'']"
    "filter (system_matches engine kelvin_system) virtualizationIndicators = [js ''kvm'']"
    by code_simp+
  from system_probe_one_entry_per_token [OF pre, of engine oracle_system initial]
    system_probe_one_entry_per_token [OF pre, of engine kelvin_system initial] hits
  show ?thesis
    by (simp add: system_evidence_def initial_def oracle_system_def kelvin_system_def)
qed




text \<open>
  As the specification words it, the next claim fails for the system check: the entry of
  a failed system query does not begin with "Error retrieving".
\<close>

theorem system_failure_has_another_text:
  "check_system engine (failing unreadable) initial =
     Inr \<lparr>isEmulator = False,
          l_evidences = [js ''Error detecting system virtualization: no system'']\<rparr>
   \<and> \<not> prefix (js ''Error retrieving '')
          (js ''Error detecting system virtualization: no system'')"
  by code_simp

text \<open>
  C5, amended: a query that fails with message \<open>m\<close> makes its check push exactly one
  entry and leave the verdict as it was; nothing is thrown to the caller. The entry is
  "Error detecting system virtualization: m" for the system check and
  "Error retrieving X information: m" for the other five, X being chassis, CPU,
  network interface, BIOS or UUID.
\<close>

theorem query_failure_is_one_error_entry:
  "(si_system p = Rejected (HasMessage (Str m)) \<longrightarrow>
      check_system rt p s =
        Inr (s\<lparr>l_evidences :=
                 l_evidences s @ [js ''Error detecting system virtualization: '' @ m]\<rparr>))
   \<and> (si_chassis p = Rejected (HasMessage (Str m)) \<longrightarrow>
      check_chassis rt p s =
        Inr (s\<lparr>l_evidences :=
                 l_evidences s @ [js ''Error retrieving chassis information: '' @ m]\<rparr>))
   \<and> (si_cpu p = Rejected (HasMessage (Str m)) \<longrightarrow>
      check_cpu rt p s =
        Inr (s\<lparr>l_evidences :=
                 l_evidences s @ [js ''Error retrieving CPU information: '' @ m]\<rparr>))
   \<and> (si_networkInterfaces p = Rejected (HasMessage (Str m)) \<longrightarrow>
      check_network rt p s =
        Inr (s\<lparr>l_evidences :=
                 l_evidences s @
                 [js ''Error retrieving network interface information: '' @ m]\<rparr>))
   \<and> (si_bios p = Rejected (HasMessage (Str m)) \<longrightarrow>
      check_bios rt p s =
        Inr (s\<lparr>l_evidences :=
                 l_evidences s @ [js ''Error retrieving BIOS information: '' @ m]\<rparr>))
   \<and> (si_uuid p = Rejected (HasMessage (Str m)) \<longrightarrow>
      check_uuid rt p s =
        Inr (s\<lparr>l_evidences :=
                 l_evidences s @ [js ''Error retrieving UUID information: '' @ m]\<rparr>))"
  by (simp add: check_system_def check_chassis_def check_cpu_def check_network_def
        check_bios_def check_uuid_def catch_push_def error_defs push_def)

text \<open>
  The six checks on the provider whose queries all fail.
\<close>

theorem query_failure_is_one_error_entry_witness:
  "check_system engine (failing unreadable) initial =
     Inr \<lparr>isEmulator = False,
          l_evidences = [js ''Error detecting system virtualization: no system'']\<rparr>
   \<and> check_chassis engine (failing unreadable) initial =
     Inr \<lparr>isEmulator = False,
          l_evidences = [js ''Error retrieving chassis information: no chassis'']\<rparr>
   \<and> check_cpu engine (failing unreadable) initial =
     Inr \<lparr>isEmulator = False,
          l_evidences = [js ''Error retrieving CPU information: no cpu'']\<rparr>
   \<and> check_network engine (failing unreadable) initial =
     Inr \<lparr>isEmulator = False,
          l_evidences = [js ''Error retrieving network interface information: no net'']\<rparr>
   \<and> check_bios engine (failing unreadable) initial =
     Inr \<lparr>isEmulator = False,
          l_evidences = [js ''Error retrieving BIOS information: no bios'']\<rparr>
   \<and> check_uuid engine (failing unreadable) initial =
     Inr \<lparr>isEmulator = False,
          l_evidences = [js ''Error retrieving UUID information: no uuid'']\<rparr>"
proof -
  let ?p = "failing unreadable"
  note at = query_failure_is_one_error_entry [of ?p _ engine initial]
  show ?thesis
    using at [of "js ''no system''"] at [of "js ''no chassis''"] at [of "js ''no cpu''"]
      at [of "js ''no net''"] at [of "js ''no bios''"] at [of "js ''no uuid''"]
    by (simp add: failing_def new_Error_def initial_def)
qed

text \<open>
  C6: the call returns a report unless a query rejects with \<^verbatim>\<open>null\<close> or \<^verbatim>\<open>undefined\<close>, and
  the entries of the report are those of the nine checks in the order development mode,
  system identity, chassis, CPU, network, BIOS, UUID, control group, environment
  variables; within a check they follow the order of its indicator list (and, for the
  network check, the order of the interfaces).
\<close>

theorem evidences_in_check_order:
  "(nullish_rejection p \<longrightarrow> checkEmulator rt ctx p = Inl TypeError)
   \<and> (\<not> nullish_rejection p \<longrightarrow>
        (\<exists>r. checkEmulator rt ctx p = Inr r
             \<and> evidences r =
                 development_entries ctx @ system_entries rt p @ chassis_entries rt p @
                 cpu_entries rt p @ network_entries rt p @ bios_entries rt p @
                 uuid_entries rt p @ cgroup_entries ctx p @ env_entries ctx))"
proof (intro conjI impI)
  assume "nullish_rejection p"
  then show "checkEmulator rt ctx p = Inl TypeError"
    by (simp add: checkEmulator_Inl)
next
  assume "\<not> nullish_rejection p"
  then obtain r where r: "checkEmulator rt ctx p = Inr r"
    using checkEmulator_returns by blast
  with report_evidences [OF r]
  show "\<exists>r. checkEmulator rt ctx p = Inr r
          \<and> evidences r =
              development_entries ctx @ system_entries rt p @ chassis_entries rt p @
              cpu_entries rt p @ network_entries rt p @ bios_entries rt p @
              uuid_entries rt p @ cgroup_entries ctx p @ env_entries ctx"
    by blast
qed

text \<open>
  A run in which eight of the nine checks contribute.
\<close>

theorem evidences_in_check_order_witness:
  \<open>\<exists>r. checkEmulator engine busy_ctx busy_host = Inr r \<and>
     evidences r =
     [js ''app.isPackaged=false (development mode)'',
      js ''NODE_ENV=development'',
      js ''Detected virtualization indicator: "vmware" in manufacturer/model (manufacturer: "VMware, Inc.", model: "VMware Virtual Platform")'',
      js ''Error retrieving chassis information: EACCES'',
      js ''CPU brand indicates virtualization: "QEMU Virtual CPU"'',
      js ''Network interface eth0 has MAC address 00:1C:14:AA:BB:CC with virtualization prefix (00:1C:14)'',
      js ''Network interface ens3 has MAC address 00:0c:29:01:02:03 with virtualization prefix (00:0C:29)'',
      js ''Network interface tap0 has MAC address 00:03:'' @ [0xFB00] @
        js '' with virtualization prefix (00:03:FF)'',
      js ''BIOS vendor indicates virtualization: "VMware Virtual BIOS" contains "virtual"'',
      js ''BIOS vendor indicates virtualization: "VMware Virtual BIOS" contains "vmware"'',
      js ''Detected container environment via /proc/1/cgroup'',
      js ''Environment variable indicates container/emulator environment'']\<close>
proof -
  have "\<not> nullish_rejection busy_host"
    by (simp add: nullish_rejection_def busy_host_def new_Error_def)
  with evidences_in_check_order [of busy_host engine busy_ctx]
  obtain r where r: "checkEmulator engine busy_ctx busy_host = Inr r"
    and ev: "evidences r =
      development_entries busy_ctx @ system_entries engine busy_host @
      chassis_entries engine busy_host @ cpu_entries engine busy_host @
      network_entries engine busy_host @ bios_entries engine busy_host @
      uuid_entries engine busy_host @ cgroup_entries busy_ctx busy_host @
      env_entries busy_ctx"
    by blast
  have parts:
    \<open>development_entries busy_ctx =
       [js ''app.isPackaged=false (development mode)'', js ''NODE_ENV=development'']\<close>
    \<open>system_entries engine busy_host =
       [js ''Detected virtualization indicator: "vmware" in manufacturer/model (manufacturer: "VMware, Inc.", model: "VMware Virtual Platform")'']\<close>
    \<open>chassis_entries engine busy_host = [js ''Error retrieving chassis information: EACCES'']\<close>
    \<open>cpu_entries engine busy_host =
       [js ''CPU brand indicates virtualization: "QEMU Virtual CPU"'']\<close>
    \<open>network_entries engine busy_host =
       [js ''Network interface eth0 has MAC address 00:1C:14:AA:BB:CC with virtualization prefix (00:1C:14)'',
        js ''Network interface ens3 has MAC address 00:0c:29:01:02:03 with virtualization prefix (00:0C:29)'',
        js ''Network interface tap0 has MAC address 00:03:'' @ [0xFB00] @
          js '' with virtualization prefix (00:03:FF)'']\<close>
    \<open>bios_entries engine busy_host =
       [js ''BIOS vendor indicates virtualization: "VMware Virtual BIOS" contains "virtual"'',
        js ''BIOS vendor indicates virtualization: "VMware Virtual BIOS" contains "vmware"'']\<close>
    \<open>uuid_entries engine busy_host = []\<close>
    \<open>cgroup_entries busy_ctx busy_host =
       [js ''Detected container environment via /proc/1/cgroup'']\<close>
    \<open>env_entries busy_ctx =
       [js ''Environment variable indicates container/emulator environment'']\<close>
    by code_simp+
  from ev show ?thesis
    unfolding parts using r by simp
qed

text \<open>
  C7: a packaged application on win32 without the three environment variables, on a Dell
  XPS 13 (chassis Notebook, an Intel Core i7, Dell BIOS) with no interface matching a
  prefix and a UUID without indicator, gets the report
  \<^verbatim>\<open>{is_emulator: false, evidences: [], os: "Windows"}\<close>.
\<close>

theorem clean_physical_host:
  assumes "isPackaged ctx" and "platform ctx = js ''win32''"
    and "env ctx (js ''NODE_ENV'') = None"
    and "env ctx (js ''DOCKER_CONTAINER'') = None" and "env ctx (js ''CONTAINER'') = None"
    and "si_system p =
           Resolved \<lparr>manufacturer = Str (js ''Dell Inc.''), model = Str (js ''XPS 13'')\<rparr>"
    and "si_chassis p = Resolved (Some \<lparr>chassis_type = Str (js ''Notebook'')\<rparr>)"
    and "si_cpu p = Resolved \<lparr>brand = Str (js ''Intel(R) Core(TM) i7'')\<rparr>"
    and "si_networkInterfaces p = Resolved netInterfaces"
    and "filter (mac_matches rt) netInterfaces = []"
    and "si_bios p = Resolved \<lparr>vendor = Str (js ''Dell Inc.'')\<rparr>"
    and "si_uuid p = Resolved (Some uuidData)" and "\<not> uuid_matches rt uuidData"
  shows "checkEmulator rt ctx p =
           Inr \<lparr>is_emulator = False, evidences = [], os = js ''Windows''\<rparr>"
proof -
  have sys: "filter (system_matches rt
                \<lparr>manufacturer = Str (js ''Dell Inc.''), model = Str (js ''XPS 13'')\<rparr>)
               virtualizationIndicators = []"
    by code_simp
  have ch: "\<not> chassis_matches rt \<lparr>chassis_type = Str (js ''Notebook'')\<rparr>"
    by code_simp
  have cpu: "\<not> cpu_matches rt \<lparr>brand = Str (js ''Intel(R) Core(TM) i7'')\<rparr>"
    by code_simp
  have bios: "filter (bios_matches rt \<lparr>vendor = Str (js ''Dell Inc.'')\<rparr>) biosIndicators = []"
    by code_simp
  have "\<not> nullish_rejection p"
    using assms(6-9,11,12) by (simp add: nullish_rejection_def)
  then obtain s where s: "run_checks rt ctx p = Inr s"
    using run_checks_Inl [of rt ctx p TypeError]
    by (cases "run_checks rt ctx p") (auto, case_tac a, simp)
  have "development_entries ctx = []" "env_entries ctx = []" "cgroup_entries ctx p = []"
    using assms(1-5)
    by (simp_all add: development_entries_def env_entries_def cgroup_entries_def
          cgroup_matches_def)
  moreover have "system_entries rt p = []" "chassis_entries rt p = []"
    "cpu_entries rt p = []" "bios_entries rt p = []"
    using assms(6-8,11) sys ch cpu bios
    by (simp_all add: system_entries_def chassis_entries_def cpu_entries_def bios_entries_def)
  moreover have "network_entries rt p = []" "uuid_entries rt p = []"
    using assms(9,10,12,13) by (simp_all add: network_entries_def uuid_entries_def)
  ultimately have ev: "l_evidences s = []"
    using run_checks_evidences [OF s] by simp
  with consistent_run_checks [OF s] have "\<not> isEmulator s"
    by (simp add: consistent_def)
  with ev s assms(2) show ?thesis
    by (simp add: checkEmulator_def osName_def)
qed

text \<open>
  The example laptop.
\<close>

theorem clean_physical_host_witness:
  "checkEmulator engine (with_path ''win32'') dell_host =
     Inr \<lparr>is_emulator = False, evidences = [], os = js ''Windows''\<rparr>"
proof -
  have nets: "filter (mac_matches engine)
      [\<lparr>iface = Str (js ''Wi-Fi''), mac = Str (js ''a4:83:e7:12:34:56'')\<rparr>,
       \<lparr>iface = Str (js ''Loopback''), mac = Undefined\<rparr>] = []"
    by code_simp
  have uuid: "\<not> uuid_matches engine
      \<lparr>uuid_os = Str (js ''4C4C4544-0042-3510-8054-B7C04F4D4E32'')\<rparr>"
    by code_simp
  show ?thesis
    by (rule clean_physical_host [OF _ _ _ _ _ _ _ _ _ nets _ _ uuid])
       (simp_all add: with_path_def dell_host_def)
qed

text \<open>
  C8: the control-group check pushes its one entry and sets the verdict exactly when the
  platform is linux and the file could be read and contains docker or lxc; otherwise
  (another platform, an unreadable file, a file without these words) it changes nothing.
\<close>

theorem container_probe:
  "check_cgroup ctx p s =
     (if platform ctx = js ''linux'' \<and>
         (\<exists>cgroup. readFile_cgroup p = Resolved cgroup \<and>
                   (sublist (js ''docker'') cgroup \<or> sublist (js ''lxc'') cgroup))
      then s\<lparr>isEmulator := True,
             l_evidences :=
               l_evidences s @ [js ''Detected container environment via /proc/1/cgroup'']\<rparr>
      else s)"
  by (auto simp: check_cgroup_def includes_str_sublist detect_def push_def
           split: awaited.splits)

text \<open>
  Another platform, an unreadable file, a file of a host, a file of a container.
\<close>

theorem container_probe_witness:
  "check_cgroup (packaged ''darwin'') (failing (Resolved (js ''12:pids:/docker/3f4a''))) initial
     = initial
   \<and> check_cgroup (packaged ''linux'') (failing unreadable) initial = initial
   \<and> check_cgroup (packaged ''linux'') (failing (Resolved (js ''0::/init.scope''))) initial
     = initial
   \<and> check_cgroup (packaged ''linux'') (failing (Resolved (js ''12:pids:/docker/3f4a''))) initial =
       \<lparr>isEmulator = True,
        l_evidences = [js ''Detected container environment via /proc/1/cgroup'']\<rparr>"
proof -
  have "includes_str (js ''12:pids:/docker/3f4a'') (js ''docker'')"
    "\<not> includes_str (js ''0::/init.scope'') (js ''docker'')"
    "\<not> includes_str (js ''0::/init.scope'') (js ''lxc'')"
    by code_simp+
  then have sub: "sublist (js ''docker'') (js ''12:pids:/docker/3f4a'')"
    "\<not> sublist (js ''docker'') (js ''0::/init.scope'')"
    "\<not> sublist (js ''lxc'') (js ''0::/init.scope'')"
    by (simp_all add: includes_str_sublist)
  show ?thesis
    using sub
    by (simp add: container_probe packaged_def failing_def unreadable_def initial_def)
qed

text \<open>
  C9: the report is determined by what the function reads: the packaging flag, the
  platform, the three environment variables, the answers of the six queries and, on
  Linux, the control-group file. Two runs on the same engine that agree on these have the
  same outcome; two runs on the same context and provider are the special case.
\<close>

theorem report_depends_on_inputs_only:
  assumes "isPackaged c1 = isPackaged c2" and "platform c1 = platform c2"
    and "env c1 (js ''NODE_ENV'') = env c2 (js ''NODE_ENV'')"
    and "env c1 (js ''DOCKER_CONTAINER'') = env c2 (js ''DOCKER_CONTAINER'')"
    and "env c1 (js ''CONTAINER'') = env c2 (js ''CONTAINER'')"
    and "si_system p1 = si_system p2" and "si_chassis p1 = si_chassis p2"
    and "si_cpu p1 = si_cpu p2"
    and "si_networkInterfaces p1 = si_networkInterfaces p2"
    and "si_bios p1 = si_bios p2" and "si_uuid p1 = si_uuid p2"
    and "platform c1 = js ''linux'' \<Longrightarrow> readFile_cgroup p1 = readFile_cgroup p2"
  shows "checkEmulator rt c1 p1 = checkEmulator rt c2 p2"
proof -
  have "check_development c1 s = check_development c2 s" for s
    using assms(1,3) by (simp add: check_development_def)
  moreover have "check_system rt p1 = check_system rt p2"
    using assms(6) by (simp add: check_system_def fun_eq_iff)
  moreover have "check_chassis rt p1 = check_chassis rt p2"
    using assms(7) by (simp add: check_chassis_def fun_eq_iff)
  moreover have "check_cpu rt p1 = check_cpu rt p2"
    using assms(8) by (simp add: check_cpu_def fun_eq_iff)
  moreover have "check_network rt p1 = check_network rt p2"
    using assms(9) by (simp add: check_network_def fun_eq_iff)
  moreover have "check_bios rt p1 = check_bios rt p2"
    using assms(10) by (simp add: check_bios_def fun_eq_iff)
  moreover have "check_uuid rt p1 = check_uuid rt p2"
    using assms(11) by (simp add: check_uuid_def fun_eq_iff)
  moreover have "check_cgroup c1 p1 s = check_cgroup c2 p2 s" for s
    using assms(2,12) by (simp add: check_cgroup_def)
  moreover have "check_env c1 s = check_env c2 s" for s
    using assms(4,5) by (simp add: check_env_def)
  ultimately have "run_checks rt c1 p1 = run_checks rt c2 p2"
    by (simp add: run_checks_def)
  then show ?thesis
    using assms(2) by (simp add: checkEmulator_def split: sum.splits)
qed

text \<open>
  Two runs on macOS that differ in an unrelated variable and in the unread file.
\<close>

theorem report_depends_on_inputs_only_witness:
  "checkEmulator engine (packaged ''darwin'') (failing unreadable) =
   checkEmulator engine (with_path ''darwin'')
     (failing (Resolved (js ''12:pids:/docker/3f4a'')))"
proof -
  have "js ''PATH'' \<noteq> js ''NODE_ENV''" "js ''PATH'' \<noteq> js ''DOCKER_CONTAINER''"
    "js ''PATH'' \<noteq> js ''CONTAINER''" "js ''darwin'' \<noteq> js ''linux''"
    by simp_all
  then show ?thesis
    by (intro report_depends_on_inputs_only)
       (simp_all add: packaged_def with_path_def failing_def)
qed

text \<open>
  C10: the environment check pushes its one entry and sets the verdict exactly when
  \<^verbatim>\<open>DOCKER_CONTAINER\<close> or \<^verbatim>\<open>CONTAINER\<close> is set to a non-empty string; a variable set to the
  empty string does not count, and two set variables still give one entry.
\<close>

theorem container_env_probe:
  "check_env ctx s =
     (if (\<exists>v. env ctx (js ''DOCKER_CONTAINER'') = Some v \<and> v \<noteq> [])
         \<or> (\<exists>v. env ctx (js ''CONTAINER'') = Some v \<and> v \<noteq> [])
      then s\<lparr>isEmulator := True,
             l_evidences := l_evidences s @
               [js ''Environment variable indicates container/emulator environment'']\<rparr>
      else s)"
proof -
  have "env_truthy x = (\<exists>v. x = Some v \<and> v \<noteq> [])" for x
    by (cases x) simp_all
  then show ?thesis
    by (auto simp: check_env_def detect_def push_def)
qed

text \<open>
  An empty variable, one variable, both variables.
\<close>

theorem container_env_probe_witness:
  "check_env (container_env (Some []) None) initial = initial
   \<and> check_env (container_env None (Some ''podman'')) initial =
       \<lparr>isEmulator = True,
        l_evidences =
          [js ''Environment variable indicates container/emulator environment'']\<rparr>
   \<and> check_env (container_env (Some ''true'') (Some ''podman'')) initial =
       \<lparr>isEmulator = True,
        l_evidences =
          [js ''Environment variable indicates container/emulator environment'']\<rparr>"
  by (simp add: container_env_probe container_env_def initial_def)

end
